theory Spec2Isabelle
  imports Complex_Main
begin

section \<open>Python strings\<close>

text \<open>
  Model identifiers are Python \<open>str\<close> values. They are modelled as \<open>string\<close>
  (lists of 8-bit characters), read as ASCII text: \<open>str.lower\<close> maps the letters
  \<open>A\<close>..\<open>Z\<close> to \<open>a\<close>..\<open>z\<close> and leaves every other ASCII character
  alone. Characters outside ASCII are left unchanged by \<open>lower\<close> in this model.
\<close>

definition is_upper :: "char \<Rightarrow> bool" where
  "is_upper c = (65 \<le> (of_char c :: nat) \<and> (of_char c :: nat) \<le> 90)"

definition lower_char :: "char \<Rightarrow> char" where
  "lower_char c = (if is_upper c then char_of ((of_char c :: nat) + 32) else c)"

definition lower :: "string \<Rightarrow> string" where
  "lower s = map lower_char s"

text \<open>\<open>s.startswith(p)\<close>: \<open>p\<close> is matched character by character from the front.\<close>

fun startswith :: "string \<Rightarrow> string \<Rightarrow> bool" where
  "startswith s [] = True"
| "startswith [] (p # ps) = False"
| "startswith (c # cs) (p # ps) = (c = p \<and> startswith cs ps)"

text \<open>\<open>p in s\<close> for strings: \<open>p\<close> occurs at some position of \<open>s\<close>.\<close>

fun str_in :: "string \<Rightarrow> string \<Rightarrow> bool" where
  "str_in p [] = (p = [])"
| "str_in p (c # cs) = (startswith (c # cs) p \<or> str_in p cs)"

text \<open>
  \<open>s.replace(old, new)\<close>: the occurrences of \<open>old\<close> are found from left to
  right, each search resuming after the previous occurrence. With an empty
  \<open>old\<close>, \<open>new\<close> is inserted before every character and at the end.
\<close>

function py_replace :: "string \<Rightarrow> string \<Rightarrow> string \<Rightarrow> string" where
  "py_replace [] old new = (if old = [] then new else [])"
| "py_replace (c # cs) old new =
     (if old = [] then new @ concat (map (\<lambda>x. x # new) (c # cs))
      else if startswith (c # cs) old
        then new @ py_replace (drop (length old) (c # cs)) old new
      else c # py_replace cs old new)"
  by pat_completeness auto
termination
  by (relation "measure (\<lambda>(s, old, new). length s)") auto

text \<open>\<open>s.split(",")\<close> and \<open>s.strip()\<close> (ASCII white space).\<close>

fun split_comma :: "string \<Rightarrow> string list" where
  "split_comma [] = [[]]"
| "split_comma (c # cs) =
     (if c = CHR '','' then [] # split_comma cs
      else (case split_comma cs of [] \<Rightarrow> [[c]] | w # ws \<Rightarrow> (c # w) # ws))"

definition is_space :: "char \<Rightarrow> bool" where
  "is_space c = ((of_char c :: nat) \<in> {9, 10, 11, 12, 13, 28, 29, 30, 31, 32})"

definition strip :: "string \<Rightarrow> string" where
  "strip s = rev (dropWhile is_space (rev (dropWhile is_space s)))"

section \<open>Python values, exceptions, external collaborators\<close>

text \<open>
  A Python \<open>float\<close> is a finite value (a real number here; the only operation on
  it is the comparison with \<open>1.0\<close>, which is exact), an infinity or NaN.
  \<open>float_le\<close> is the IEEE comparison \<open><=\<close>: false whenever an operand is NaN.
\<close>

datatype pyfloat = Finite real | PosInf | NegInf | NaN

fun float_le :: "pyfloat \<Rightarrow> pyfloat \<Rightarrow> bool" where
  "float_le NaN y = False"
| "float_le x NaN = False"
| "float_le NegInf y = True"
| "float_le x PosInf = True"
| "float_le PosInf y = False"
| "float_le x NegInf = False"
| "float_le (Finite x) (Finite y) = (x \<le> y)"

datatype pyval =
    VNone
  | VBool bool
  | VInt int
  | VFloat pyfloat
  | VStr string
  | VList "pyval list"
  | VDict "(string \<times> pyval) list"

text \<open>Truth value of a Python object in a condition.\<close>

fun truthy :: "pyval \<Rightarrow> bool" where
  "truthy VNone = False"
| "truthy (VBool b) = b"
| "truthy (VInt i) = (i \<noteq> 0)"
| "truthy (VFloat f) = (f \<noteq> Finite 0)"
| "truthy (VStr s) = (s \<noteq> [])"
| "truthy (VList xs) = (xs \<noteq> [])"
| "truthy (VDict kvs) = (kvs \<noteq> [])"

text \<open>An \<open>Optional[str]\<close> in a condition: \<open>None\<close> and \<open>""\<close> are false.\<close>

fun str_truthy :: "string option \<Rightarrow> bool" where
  "str_truthy None = False"
| "str_truthy (Some s) = (s \<noteq> [])"

text \<open>
  The exceptions (all subclasses of \<open>Exception\<close>) that the client raises itself,
  and \<open>SDKError\<close> for whatever a provider SDK raises inside one of its calls.
  \<open>exn_str\<close> is \<open>str(e)\<close>. An \<open>AttributeError\<close> is given by the name of
  the missing attribute; its message also names the class of the object, which
  is left out here.
\<close>

datatype exn =
    ValueError string
  | KeyError string
  | IndexError
  | AttributeError string
  | TypeError string
  | SDKError string

fun exn_str :: "exn \<Rightarrow> string" where
  "exn_str (ValueError m) = m"
| "exn_str (KeyError k) = [CHR 0x27] @ k @ [CHR 0x27]"
| "exn_str IndexError = ''list index out of range''"
| "exn_str (AttributeError a) = ''object has no attribute '' @ [CHR 0x27] @ a @ [CHR 0x27]"
| "exn_str (TypeError m) = m"
| "exn_str (SDKError m) = m"

text \<open>
  Keyword arguments: of an outbound SDK call, or collected by \<open>**kwargs\<close>.
\<close>

type_synonym kwargs = "string \<rightharpoonup> pyval"

definition no_kwargs :: kwargs where
  "no_kwargs = Map.empty"

text \<open>
  A client object of a provider SDK. The number is the identity of the Python
  object (two handles are the same instance iff they are equal); the Gemini client
  also carries the API key it was constructed with.
\<close>

datatype handle = Client (ident: nat) (api_key: "string option")

text \<open>
  A consumed generator: the items it yielded, then the exception that ended it,
  if one did.
\<close>

type_synonym 'a pystream = "'a list \<times> exn option"

text \<open>
  Reply shapes. Ollama replies and chunks are mappings
  (\<open>reply["message"]["content"]\<close>); an OpenAI completion or chunk is the list of
  its choices, each given by the content of its message or delta
  (\<open>choices[0].message.content\<close>, \<open>choices[0].delta.content\<close>, an optional
  string); an Anthropic message is the list of its content blocks, of which only
  text blocks have a \<open>text\<close> attribute; a Gemini reply or chunk is its
  optional \<open>text\<close>.
\<close>

type_synonym ollama_reply = "string \<rightharpoonup> (string \<rightharpoonup> string)"
type_synonym openai_reply = "string option list"
datatype content_block = TextBlock string | OtherBlock
type_synonym anthropic_reply = "content_block list"
type_synonym gemini_reply = "string option"

text \<open>
  Everything outside the repository: the process environment and the four SDKs.
  The SDK packages are installed, so the \<open>import\<close> statements inside the
  methods succeed. A constructor is given by the exception it raises, if any; a
  call by its reply or the exception it raises.
\<close>

record sdk =
  environ :: "string \<rightharpoonup> string"
  ollama_chat :: "kwargs \<Rightarrow> exn + ollama_reply"
  ollama_chat_stream :: "kwargs \<Rightarrow> ollama_reply pystream"
  ollama_list :: "exn + (string \<rightharpoonup> (string \<rightharpoonup> string) list)"
  openai_init :: "exn option"
  openai_create :: "handle \<Rightarrow> kwargs \<Rightarrow> exn + openai_reply"
  openai_create_stream :: "handle \<Rightarrow> kwargs \<Rightarrow> openai_reply pystream"
  anthropic_init :: "exn option"
  anthropic_create :: "handle \<Rightarrow> kwargs \<Rightarrow> exn + anthropic_reply"
  anthropic_text_stream :: "handle \<Rightarrow> kwargs \<Rightarrow> string pystream"
  genai_init :: "string \<Rightarrow> exn option"
  genai_generate_content :: "handle \<Rightarrow> kwargs \<Rightarrow> exn + gemini_reply"
  genai_generate_content_stream :: "handle \<Rightarrow> kwargs \<Rightarrow> gemini_reply pystream"

section \<open>The client registry\<close>

text \<open>
  The three cached attributes of \<open>LLMClient\<close> (\<open>None\<close> until first use), and
  \<open>constructed\<close>, the number of SDK client objects constructed so far, which
  gives each new object its identity.
\<close>

record llm_client =
  openai_client :: "handle option"
  anthropic_client :: "handle option"
  gemini_client :: "handle option"
  constructed :: nat

definition init_client :: llm_client where
  "init_client = \<lparr>openai_client = None, anthropic_client = None, gemini_client = None,
                  constructed = 0\<rparr>"

definition get_openai :: "sdk \<Rightarrow> llm_client \<Rightarrow> (exn + handle) \<times> llm_client" where
  "get_openai B self =
     (case openai_client self of
        None \<Rightarrow>
          (case openai_init B of
             Some e \<Rightarrow> (Inl e, self)
           | None \<Rightarrow>
               (let h = Client (constructed self) None in
                (Inr h, self\<lparr>openai_client := Some h,
                             constructed := Suc (constructed self)\<rparr>)))
      | Some h \<Rightarrow> (Inr h, self))"

definition get_anthropic :: "sdk \<Rightarrow> llm_client \<Rightarrow> (exn + handle) \<times> llm_client" where
  "get_anthropic B self =
     (case anthropic_client self of
        None \<Rightarrow>
          (case anthropic_init B of
             Some e \<Rightarrow> (Inl e, self)
           | None \<Rightarrow>
               (let h = Client (constructed self) None in
                (Inr h, self\<lparr>anthropic_client := Some h,
                             constructed := Suc (constructed self)\<rparr>)))
      | Some h \<Rightarrow> (Inr h, self))"

text \<open>\<open>a or b\<close> on optional strings.\<close>

definition str_or :: "string option \<Rightarrow> string option \<Rightarrow> string option" where
  "str_or a b = (if str_truthy a then a else b)"

definition get_gemini :: "sdk \<Rightarrow> llm_client \<Rightarrow> (exn + handle) \<times> llm_client" where
  "get_gemini B self =
     (case gemini_client self of
        None \<Rightarrow>
          (let api_key = str_or (environ B ''GEMINI_API_KEY'') (environ B ''GOOGLE_API_KEY'') in
           case api_key of
             None \<Rightarrow>
               (Inl (ValueError ''GEMINI_API_KEY or GOOGLE_API_KEY environment variable required''),
                self)
           | Some k \<Rightarrow>
               if k = [] then
                 (Inl (ValueError ''GEMINI_API_KEY or GOOGLE_API_KEY environment variable required''),
                  self)
               else
                 (case genai_init B k of
                    Some e \<Rightarrow> (Inl e, self)
                  | None \<Rightarrow>
                      (let h = Client (constructed self) (Some k) in
                       (Inr h, self\<lparr>gemini_client := Some h,
                                    constructed := Suc (constructed self)\<rparr>))))
      | Some h \<Rightarrow> (Inr h, self))"

section \<open>Provider identification\<close>

text \<open>
  \<open>LLMClient._get_provider\<close>: the provider tag is a Python string, one of
  \<open>"ollama"\<close>, \<open>"openai"\<close>, \<open>"anthropic"\<close>, \<open>"gemini"\<close>.
\<close>

definition get_provider :: "string \<Rightarrow> string" where
  "get_provider model =
     (let model_lower = lower model in
      if startswith model_lower ''ollama/'' then ''ollama''
      else if str_in ''gpt'' model_lower \<or> str_in ''o1'' model_lower
              \<or> startswith model_lower ''ft:'' then ''openai''
      else if str_in ''claude'' model_lower then ''anthropic''
      else if str_in ''gemini'' model_lower then ''gemini''
      else ''ollama'')"

subsection \<open>The rules as the specification words them\<close>

datatype provider = Ollama | OpenAI | Anthropic | Gemini

fun provider_tag :: "provider \<Rightarrow> string" where
  "provider_tag Ollama = ''ollama''"
| "provider_tag OpenAI = ''openai''"
| "provider_tag Anthropic = ''anthropic''"
| "provider_tag Gemini = ''gemini''"

text \<open>
  Two characters are the same letter up to case when they are equal or one is the
  lower-case form of the other, upper-case, letter; two strings match
  case-insensitively when they have the same length and agree in this sense at
  every position.
\<close>

definition same_letter :: "char \<Rightarrow> char \<Rightarrow> bool" where
  "same_letter c d =
     (c = d \<or> (is_upper c \<and> d = lower_char c) \<or> (is_upper d \<and> c = lower_char d))"

definition ci_match :: "string \<Rightarrow> string \<Rightarrow> bool" where
  "ci_match s t = list_all2 same_letter s t"

definition begins_with_ci :: "string \<Rightarrow> string \<Rightarrow> bool" where
  "begins_with_ci s p = (\<exists>a b. s = a @ b \<and> ci_match a p)"

definition contains_ci :: "string \<Rightarrow> string \<Rightarrow> bool" where
  "contains_ci s p = (\<exists>a b c. s = a @ b @ c \<and> ci_match b p)"

definition identify_provider_spec :: "string \<Rightarrow> provider" where
  "identify_provider_spec m =
     (if begins_with_ci m ''ollama/'' then Ollama
      else if contains_ci m ''gpt'' \<or> contains_ci m ''o1'' \<or> begins_with_ci m ''ft:''
        then OpenAI
      else if contains_ci m ''claude'' then Anthropic
      else if contains_ci m ''gemini'' then Gemini
      else Ollama)"

section \<open>Request and response adapters\<close>

definition message :: "string \<Rightarrow> string \<Rightarrow> pyval" where
  "message role content = VDict [(''role'', VStr role), (''content'', VStr content)]"

text \<open>
  \<open>messages = []\<close>, then the system message \<open>if system\<close>, then the user
  message (Ollama and OpenAI, blocking and streaming).
\<close>

definition system_user_messages :: "string option \<Rightarrow> string \<Rightarrow> pyval list" where
  "system_user_messages system prompt =
     (case system of
        None \<Rightarrow> []
      | Some s \<Rightarrow> if s \<noteq> [] then [message ''system'' s] else [])
     @ [message ''user'' prompt]"

text \<open>\<open>d[k]\<close> on a mapping.\<close>

definition subscript :: "(string \<rightharpoonup> 'a) \<Rightarrow> string \<Rightarrow> exn + 'a" where
  "subscript d k = (case d k of None \<Rightarrow> Inl (KeyError k) | Some v \<Rightarrow> Inr v)"

subsection \<open>Ollama\<close>

definition ollama_chat_kwargs ::
  "string \<Rightarrow> string \<Rightarrow> string option \<Rightarrow> pyfloat \<Rightarrow> int \<Rightarrow> kwargs" where
  "ollama_chat_kwargs model prompt system temperature max_tokens =
     (let model_name = py_replace model ''ollama/'' [] in
      [''model'' \<mapsto> VStr model_name,
       ''messages'' \<mapsto> VList (system_user_messages system prompt),
       ''options'' \<mapsto> VDict [(''temperature'', VFloat temperature),
                              (''num_predict'', VInt max_tokens)]])"

text \<open>\<open>response["message"]["content"]\<close>\<close>

definition ollama_text :: "ollama_reply \<Rightarrow> exn + string option" where
  "ollama_text response =
     (case subscript response ''message'' of
        Inl e \<Rightarrow> Inl e
      | Inr m \<Rightarrow>
          (case subscript m ''content'' of
             Inl e \<Rightarrow> Inl e
           | Inr c \<Rightarrow> Inr (Some c)))"

definition chat_ollama ::
  "sdk \<Rightarrow> string \<Rightarrow> string \<Rightarrow> string option \<Rightarrow> pyfloat \<Rightarrow> int \<Rightarrow> exn + string option" where
  "chat_ollama B model prompt system temperature max_tokens =
     (case ollama_chat B (ollama_chat_kwargs model prompt system temperature max_tokens) of
        Inl e \<Rightarrow> Inl e
      | Inr response \<Rightarrow> ollama_text response)"

subsection \<open>OpenAI\<close>

definition openai_chat_kwargs ::
  "string \<Rightarrow> string \<Rightarrow> string option \<Rightarrow> pyfloat \<Rightarrow> int \<Rightarrow> kwargs \<Rightarrow> kwargs" where
  "openai_chat_kwargs model prompt system temperature max_tokens kwargs =
     (let create_kwargs =
            [''model'' \<mapsto> VStr model,
             ''messages'' \<mapsto> VList (system_user_messages system prompt),
             ''max_tokens'' \<mapsto> VInt max_tokens,
             ''temperature'' \<mapsto> VFloat temperature]
      in case kwargs ''response_format'' of
           None \<Rightarrow> create_kwargs
         | Some v \<Rightarrow>
             if truthy v then create_kwargs(''response_format'' \<mapsto> v) else create_kwargs)"

text \<open>\<open>response.choices[0].message.content\<close>\<close>

definition openai_text :: "openai_reply \<Rightarrow> exn + string option" where
  "openai_text response =
     (case response of
        [] \<Rightarrow> Inl IndexError
      | choice # _ \<Rightarrow> Inr choice)"

definition chat_openai ::
  "sdk \<Rightarrow> llm_client \<Rightarrow> string \<Rightarrow> string \<Rightarrow> string option \<Rightarrow> pyfloat \<Rightarrow> int \<Rightarrow> kwargs
     \<Rightarrow> (exn + string option) \<times> llm_client" where
  "chat_openai B self model prompt system temperature max_tokens kwargs =
     (case get_openai B self of
        (Inl e, self') \<Rightarrow> (Inl e, self')
      | (Inr client, self') \<Rightarrow>
          (case openai_create B client
                  (openai_chat_kwargs model prompt system temperature max_tokens kwargs) of
             Inl e \<Rightarrow> (Inl e, self')
           | Inr response \<Rightarrow> (openai_text response, self')))"

subsection \<open>Anthropic\<close>

definition anthropic_chat_kwargs ::
  "string \<Rightarrow> string \<Rightarrow> string option \<Rightarrow> pyfloat \<Rightarrow> int \<Rightarrow> kwargs" where
  "anthropic_chat_kwargs model prompt system temperature max_tokens =
     (let create_kwargs =
            [''model'' \<mapsto> VStr model,
             ''max_tokens'' \<mapsto> VInt max_tokens,
             ''messages'' \<mapsto> VList [message ''user'' prompt]];
          create_kwargs =
            (case system of
               None \<Rightarrow> create_kwargs
             | Some s \<Rightarrow>
                 if s \<noteq> [] then create_kwargs(''system'' \<mapsto> VStr s) else create_kwargs)
      in if float_le temperature (Finite 1)
         then create_kwargs(''temperature'' \<mapsto> VFloat temperature)
         else create_kwargs)"

text \<open>\<open>message.content[0].text\<close>\<close>

definition anthropic_text :: "anthropic_reply \<Rightarrow> exn + string option" where
  "anthropic_text msg =
     (case msg of
        [] \<Rightarrow> Inl IndexError
      | TextBlock t # _ \<Rightarrow> Inr (Some t)
      | OtherBlock # _ \<Rightarrow> Inl (AttributeError ''text''))"

definition chat_anthropic ::
  "sdk \<Rightarrow> llm_client \<Rightarrow> string \<Rightarrow> string \<Rightarrow> string option \<Rightarrow> pyfloat \<Rightarrow> int
     \<Rightarrow> (exn + string option) \<times> llm_client" where
  "chat_anthropic B self model prompt system temperature max_tokens =
     (case get_anthropic B self of
        (Inl e, self') \<Rightarrow> (Inl e, self')
      | (Inr client, self') \<Rightarrow>
          (case anthropic_create B client
                  (anthropic_chat_kwargs model prompt system temperature max_tokens) of
             Inl e \<Rightarrow> (Inl e, self')
           | Inr msg \<Rightarrow> (anthropic_text msg, self')))"

subsection \<open>Gemini\<close>

text \<open>
  The \<open>GenerateContentConfig\<close> object is given by the attributes set on it.
\<close>

definition gemini_kwargs ::
  "string \<Rightarrow> string \<Rightarrow> string option \<Rightarrow> pyfloat \<Rightarrow> int \<Rightarrow> kwargs" where
  "gemini_kwargs model prompt system temperature max_tokens =
     (let config = [(''temperature'', VFloat temperature),
                    (''max_output_tokens'', VInt max_tokens)];
          config =
            (case system of
               None \<Rightarrow> config
             | Some s \<Rightarrow>
                 if s \<noteq> [] then config @ [(''system_instruction'', VStr s)] else config)
      in [''model'' \<mapsto> VStr model, ''contents'' \<mapsto> VStr prompt, ''config'' \<mapsto> VDict config])"

text \<open>\<open>response.text\<close>\<close>

definition gemini_text :: "gemini_reply \<Rightarrow> exn + string option" where
  "gemini_text response = Inr response"

definition chat_gemini ::
  "sdk \<Rightarrow> llm_client \<Rightarrow> string \<Rightarrow> string \<Rightarrow> string option \<Rightarrow> pyfloat \<Rightarrow> int
     \<Rightarrow> (exn + string option) \<times> llm_client" where
  "chat_gemini B self model prompt system temperature max_tokens =
     (case get_gemini B self of
        (Inl e, self') \<Rightarrow> (Inl e, self')
      | (Inr client, self') \<Rightarrow>
          (case genai_generate_content B client
                  (gemini_kwargs model prompt system temperature max_tokens) of
             Inl e \<Rightarrow> (Inl e, self')
           | Inr response \<Rightarrow> (gemini_text response, self')))"

subsection \<open>Streaming\<close>

text \<open>
  \<open>for x in stream: ...\<close> inside a generator: the body raises (\<open>Inl\<close>), yields
  nothing (\<open>Inr None\<close>) or yields one fragment. An exception of the body or of the
  consumed stream ends the generator after the fragments yielded so far.
\<close>

fun for_yield :: "('a \<Rightarrow> exn + string option) \<Rightarrow> 'a pystream \<Rightarrow> string pystream" where
  "for_yield body ([], fin) = ([], fin)"
| "for_yield body (x # xs, fin) =
     (case body x of
        Inl e \<Rightarrow> ([], Some e)
      | Inr None \<Rightarrow> for_yield body (xs, fin)
      | Inr (Some t) \<Rightarrow> (case for_yield body (xs, fin) of (ts, r) \<Rightarrow> (t # ts, r)))"

definition ollama_stream_kwargs ::
  "string \<Rightarrow> string \<Rightarrow> string option \<Rightarrow> pyfloat \<Rightarrow> int \<Rightarrow> kwargs" where
  "ollama_stream_kwargs model prompt system temperature max_tokens =
     (let model_name = py_replace model ''ollama/'' [] in
      [''model'' \<mapsto> VStr model_name,
       ''messages'' \<mapsto> VList (system_user_messages system prompt),
       ''options'' \<mapsto> VDict [(''temperature'', VFloat temperature),
                              (''num_predict'', VInt max_tokens)],
       ''stream'' \<mapsto> VBool True])"

text \<open>\<open>if chunk.get("message", {}).get("content"): yield chunk["message"]["content"]\<close>\<close>

definition ollama_chunk_body :: "ollama_reply \<Rightarrow> exn + string option" where
  "ollama_chunk_body chunk =
     (case (case chunk ''message'' of None \<Rightarrow> Map.empty | Some m \<Rightarrow> m) ''content'' of
        None \<Rightarrow> Inr None
      | Some c \<Rightarrow> if c \<noteq> [] then Inr (Some c) else Inr None)"

definition stream_ollama ::
  "sdk \<Rightarrow> string \<Rightarrow> string \<Rightarrow> string option \<Rightarrow> pyfloat \<Rightarrow> int \<Rightarrow> string pystream" where
  "stream_ollama B model prompt system temperature max_tokens =
     for_yield ollama_chunk_body
       (ollama_chat_stream B (ollama_stream_kwargs model prompt system temperature max_tokens))"

definition openai_stream_kwargs ::
  "string \<Rightarrow> string \<Rightarrow> string option \<Rightarrow> pyfloat \<Rightarrow> int \<Rightarrow> kwargs" where
  "openai_stream_kwargs model prompt system temperature max_tokens =
     [''model'' \<mapsto> VStr model,
      ''messages'' \<mapsto> VList (system_user_messages system prompt),
      ''max_tokens'' \<mapsto> VInt max_tokens,
      ''temperature'' \<mapsto> VFloat temperature,
      ''stream'' \<mapsto> VBool True]"

text \<open>\<open>if chunk.choices[0].delta.content: yield chunk.choices[0].delta.content\<close>\<close>

definition openai_chunk_body :: "openai_reply \<Rightarrow> exn + string option" where
  "openai_chunk_body chunk =
     (case chunk of
        [] \<Rightarrow> Inl IndexError
      | None # _ \<Rightarrow> Inr None
      | Some c # _ \<Rightarrow> if c \<noteq> [] then Inr (Some c) else Inr None)"

definition stream_openai ::
  "sdk \<Rightarrow> llm_client \<Rightarrow> string \<Rightarrow> string \<Rightarrow> string option \<Rightarrow> pyfloat \<Rightarrow> int
     \<Rightarrow> string pystream \<times> llm_client" where
  "stream_openai B self model prompt system temperature max_tokens =
     (case get_openai B self of
        (Inl e, self') \<Rightarrow> (([], Some e), self')
      | (Inr client, self') \<Rightarrow>
          (for_yield openai_chunk_body
             (openai_create_stream B client
                (openai_stream_kwargs model prompt system temperature max_tokens)),
           self'))"

definition anthropic_stream_kwargs ::
  "string \<Rightarrow> string \<Rightarrow> string option \<Rightarrow> pyfloat \<Rightarrow> int \<Rightarrow> kwargs" where
  "anthropic_stream_kwargs model prompt system temperature max_tokens =
     (let create_kwargs =
            [''model'' \<mapsto> VStr model,
             ''max_tokens'' \<mapsto> VInt max_tokens,
             ''messages'' \<mapsto> VList [message ''user'' prompt]];
          create_kwargs =
            (case system of
               None \<Rightarrow> create_kwargs
             | Some s \<Rightarrow>
                 if s \<noteq> [] then create_kwargs(''system'' \<mapsto> VStr s) else create_kwargs)
      in if float_le temperature (Finite 1)
         then create_kwargs(''temperature'' \<mapsto> VFloat temperature)
         else create_kwargs)"

text \<open>\<open>for text in stream.text_stream: yield text\<close>\<close>

definition anthropic_text_body :: "string \<Rightarrow> exn + string option" where
  "anthropic_text_body text = Inr (Some text)"

definition stream_anthropic ::
  "sdk \<Rightarrow> llm_client \<Rightarrow> string \<Rightarrow> string \<Rightarrow> string option \<Rightarrow> pyfloat \<Rightarrow> int
     \<Rightarrow> string pystream \<times> llm_client" where
  "stream_anthropic B self model prompt system temperature max_tokens =
     (case get_anthropic B self of
        (Inl e, self') \<Rightarrow> (([], Some e), self')
      | (Inr client, self') \<Rightarrow>
          (for_yield anthropic_text_body
             (anthropic_text_stream B client
                (anthropic_stream_kwargs model prompt system temperature max_tokens)),
           self'))"

text \<open>\<open>if chunk.text: yield chunk.text\<close>\<close>

definition gemini_chunk_body :: "gemini_reply \<Rightarrow> exn + string option" where
  "gemini_chunk_body chunk =
     (case chunk of
        None \<Rightarrow> Inr None
      | Some c \<Rightarrow> if c \<noteq> [] then Inr (Some c) else Inr None)"

definition stream_gemini ::
  "sdk \<Rightarrow> llm_client \<Rightarrow> string \<Rightarrow> string \<Rightarrow> string option \<Rightarrow> pyfloat \<Rightarrow> int
     \<Rightarrow> string pystream \<times> llm_client" where
  "stream_gemini B self model prompt system temperature max_tokens =
     (case get_gemini B self of
        (Inl e, self') \<Rightarrow> (([], Some e), self')
      | (Inr client, self') \<Rightarrow>
          (for_yield gemini_chunk_body
             (genai_generate_content_stream B client
                (gemini_kwargs model prompt system temperature max_tokens)),
           self'))"

section \<open>The chat facade\<close>

definition chat ::
  "sdk \<Rightarrow> llm_client \<Rightarrow> string \<Rightarrow> string \<Rightarrow> string option \<Rightarrow> pyfloat \<Rightarrow> int \<Rightarrow> kwargs
     \<Rightarrow> (exn + string option) \<times> llm_client" where
  "chat B self model prompt system temperature max_tokens kwargs =
     (let provider = get_provider model in
      if provider = ''ollama'' then
        (chat_ollama B model prompt system temperature max_tokens, self)
      else if provider = ''openai'' then
        chat_openai B self model prompt system temperature max_tokens kwargs
      else if provider = ''anthropic'' then
        chat_anthropic B self model prompt system temperature max_tokens
      else if provider = ''gemini'' then
        chat_gemini B self model prompt system temperature max_tokens
      else (Inl (ValueError (''Unknown provider for model: '' @ model)), self))"

definition stream ::
  "sdk \<Rightarrow> llm_client \<Rightarrow> string \<Rightarrow> string \<Rightarrow> string option \<Rightarrow> pyfloat \<Rightarrow> int
     \<Rightarrow> string pystream \<times> llm_client" where
  "stream B self model prompt system temperature max_tokens =
     (let provider = get_provider model in
      if provider = ''ollama'' then
        (stream_ollama B model prompt system temperature max_tokens, self)
      else if provider = ''openai'' then
        stream_openai B self model prompt system temperature max_tokens
      else if provider = ''anthropic'' then
        stream_anthropic B self model prompt system temperature max_tokens
      else if provider = ''gemini'' then
        stream_gemini B self model prompt system temperature max_tokens
      else (([], Some (ValueError (''Unknown provider for model: '' @ model))), self))"

subsection \<open>Calls with omitted parameters\<close>

text \<open>
  A keyword call of \<open>chat\<close> or \<open>stream\<close>: \<open>model\<close> and \<open>prompt\<close>,
  \<open>system\<close> (default \<open>None\<close>), \<open>temperature\<close> and \<open>max_tokens\<close>, each
  given or omitted, and any further keyword arguments (with names other than
  these five). \<open>chat\<close> collects the further keywords in \<open>**kwargs\<close>;
  \<open>stream\<close> has no such parameter, and Python raises \<open>TypeError\<close> at the call.
\<close>

record call =
  call_model :: string
  call_prompt :: string
  call_system :: "string option"
  call_temperature :: "pyfloat option"
  call_max_tokens :: "int option"
  call_extra :: "(string \<times> pyval) list"

definition default_temperature :: pyfloat where
  "default_temperature = Finite 0.7"

definition default_max_tokens :: int where
  "default_max_tokens = 1024"

definition call_chat :: "sdk \<Rightarrow> llm_client \<Rightarrow> call \<Rightarrow> (exn + string option) \<times> llm_client" where
  "call_chat B self c =
     chat B self (call_model c) (call_prompt c) (call_system c)
       (case call_temperature c of None \<Rightarrow> default_temperature | Some t \<Rightarrow> t)
       (case call_max_tokens c of None \<Rightarrow> default_max_tokens | Some n \<Rightarrow> n)
       (map_of (call_extra c))"

definition call_stream :: "sdk \<Rightarrow> llm_client \<Rightarrow> call \<Rightarrow> string pystream \<times> llm_client" where
  "call_stream B self c =
     (case call_extra c of
        (k, v) # _ \<Rightarrow>
          (([], Some (TypeError (''LLMClient.stream() got an unexpected keyword argument ''
                                   @ [CHR 0x27] @ k @ [CHR 0x27]))), self)
      | [] \<Rightarrow>
          stream B self (call_model c) (call_prompt c) (call_system c)
            (case call_temperature c of None \<Rightarrow> default_temperature | Some t \<Rightarrow> t)
            (case call_max_tokens c of None \<Rightarrow> default_max_tokens | Some n \<Rightarrow> n))"

section \<open>The command line\<close>



text \<open>
  The parsed arguments (\<open>--temperature\<close> and \<open>--max-tokens\<close> have the argparse
  defaults 0.7 and 1024), what is printed, and how \<open>main\<close> ends.
\<close>

record args =
  args_model :: "string option"
  args_prompt :: "string option"
  args_system :: "string option"
  args_temperature :: pyfloat
  args_max_tokens :: int
  args_stream :: bool
  args_compare :: "string option"
  args_json :: bool
  args_list_ollama :: bool

datatype printed =
    Stdout string
  | Stdout_part string
  | Stderr string
  | Help

datatype exit = Return | Exit int | Uncaught exn

fun py_str :: "string option \<Rightarrow> string" where
  "py_str None = ''None''"
| "py_str (Some s) = s"

definition rule_line :: string where
  "rule_line = replicate 60 (CHR ''='')"


text \<open>
  The loop of the comparison: for each model the three header lines, then the
  response on standard output or the caught exception on standard error; the
  client is threaded through the calls.
\<close>

definition header :: "string \<Rightarrow> printed list" where
  "header model =
     [Stdout (CHR 0x0A # rule_line), Stdout (''Model: '' @ model), Stdout rule_line]"

definition outcome :: "exn + string option \<Rightarrow> printed list" where
  "outcome r =
     (case r of
        Inr response \<Rightarrow> [Stdout (py_str response)]
      | Inl e \<Rightarrow> [Stderr (''Error: '' @ exn_str e)])"

fun compare_models ::
  "sdk \<Rightarrow> args \<Rightarrow> string \<Rightarrow> llm_client \<Rightarrow> string list \<Rightarrow> printed list \<times> llm_client" where
  "compare_models B a prompt client [] = ([], client)"
| "compare_models B a prompt client (model # models) =
     (case chat B client model prompt (args_system a) (args_temperature a)
             (args_max_tokens a) Map.empty of
        (r, client') \<Rightarrow>
          (case compare_models B a prompt client' models of
             (out, client'') \<Rightarrow>
               (header model @ outcome r @ out, client'')))"

definition main_compare :: "sdk \<Rightarrow> args \<Rightarrow> string \<Rightarrow> llm_client \<Rightarrow> printed list \<times> exit" where
  "main_compare B a compare client =
     (case args_prompt a of
        None \<Rightarrow> ([Stderr ''Error: prompt required for comparison''], Exit 1)
      | Some prompt \<Rightarrow>
          if prompt = [] then ([Stderr ''Error: prompt required for comparison''], Exit 1)
          else
            (let models = map strip (split_comma compare) in
             (fst (compare_models B a prompt client models), Return)))"



section \<open>Runs of the client\<close>

text \<open>
  What a process does with one \<open>LLMClient\<close>: it acquires handles, chats and
  streams, in any order, and the collaborators may answer differently each time.
\<close>

datatype op = Acquire_openai | Acquire_anthropic | Acquire_gemini | Chat call | Stream call

fun step :: "sdk \<times> op \<Rightarrow> llm_client \<Rightarrow> llm_client" where
  "step (B, Acquire_openai) self = snd (get_openai B self)"
| "step (B, Acquire_anthropic) self = snd (get_anthropic B self)"
| "step (B, Acquire_gemini) self = snd (get_gemini B self)"
| "step (B, Chat c) self = snd (call_chat B self c)"
| "step (B, Stream c) self = snd (call_stream B self c)"

definition run :: "(sdk \<times> op) list \<Rightarrow> llm_client \<Rightarrow> llm_client" where
  "run ops self = fold step ops self"

definition cached :: "llm_client \<Rightarrow> handle list" where
  "cached self =
     concat (map (\<lambda>c. case c of None \<Rightarrow> [] | Some h \<Rightarrow> [h])
               [openai_client self, anthropic_client self, gemini_client self])"

text \<open>
  What every step of a run preserves: a cached handle stays the cached handle, and
  the number of constructed clients stays equal to the number of cached ones.
\<close>

definition keeps :: "llm_client \<Rightarrow> llm_client \<Rightarrow> bool" where
  "keeps s s' =
     ((\<forall>h. openai_client s = Some h \<longrightarrow> openai_client s' = Some h)
      \<and> (\<forall>h. anthropic_client s = Some h \<longrightarrow> anthropic_client s' = Some h)
      \<and> (\<forall>h. gemini_client s = Some h \<longrightarrow> gemini_client s' = Some h)
      \<and> (constructed s = length (cached s) \<longrightarrow> constructed s' = length (cached s')))"

text \<open>
  No usable Gemini key in the environment: each of the two variables is unset or
  empty.
\<close>

definition gemini_key_absent :: "sdk \<Rightarrow> bool" where
  "gemini_key_absent B =
     (environ B ''GEMINI_API_KEY'' \<in> {None, Some []}
      \<and> environ B ''GOOGLE_API_KEY'' \<in> {None, Some []})"

text \<open>
  The replies of an OpenAI chunk, an Ollama chunk: the text a chunk carries, if
  any.
\<close>

definition ollama_chunk_content :: "ollama_reply \<Rightarrow> string option" where
  "ollama_chunk_content chunk =
     (case chunk ''message'' of None \<Rightarrow> None | Some m \<Rightarrow> m ''content'')"

definition openai_chunk_content :: "openai_reply \<Rightarrow> string option" where
  "openai_chunk_content chunk = (case chunk of [] \<Rightarrow> None | c # _ \<Rightarrow> c)"

definition nonempty_texts :: "string option list \<Rightarrow> string list" where
  "nonempty_texts ts = filter (\<lambda>t. t \<noteq> []) (List.map_filter (\<lambda>t. t) ts)"

subsection \<open>Scripted collaborators\<close>

text \<open>
  A fixed set of collaborators for concrete runs: no API key in the environment,
  a local backend that lists two models, an OpenAI completion whose message has
  no content, an Anthropic text stream that starts with an empty text, a Gemini
  reply without text.
\<close>

definition demo_sdk :: sdk where
  "demo_sdk =
     \<lparr>environ = Map.empty,
      ollama_chat = (\<lambda>kw. Inr [''message'' \<mapsto> [''content'' \<mapsto> ''pong'']]),
      ollama_chat_stream =
        (\<lambda>kw. ([[''message'' \<mapsto> [''content'' \<mapsto> ''po'']],
                 [''message'' \<mapsto> [''content'' \<mapsto> []]],
                 Map.empty,
                 [''message'' \<mapsto> [''content'' \<mapsto> ''ng'']]], None)),
      ollama_list = Inr [''models'' \<mapsto> [[''name'' \<mapsto> ''llama3''], [''name'' \<mapsto> ''gpt-oss'']]],
      openai_init = None,
      openai_create = (\<lambda>h kw. Inr [None]),
      openai_create_stream = (\<lambda>h kw. ([[Some ''Hel''], [None], [Some ''lo'']], None)),
      anthropic_init = None,
      anthropic_create = (\<lambda>h kw. Inr [TextBlock ''Hello'']),
      anthropic_text_stream = (\<lambda>h kw. ([[], ''Hello''], None)),
      genai_init = (\<lambda>k. None),
      genai_generate_content = (\<lambda>h kw. Inr None),
      genai_generate_content_stream = (\<lambda>h kw. ([Some ''Hi'', None, Some []], None))\<rparr>"

definition demo_key_sdk :: sdk where
  "demo_key_sdk = demo_sdk\<lparr>environ := [''GOOGLE_API_KEY'' \<mapsto> ''secret'']\<rparr>"

definition demo_args :: args where
  "demo_args =
     \<lparr>args_model = None, args_prompt = Some ''What is ML?'', args_system = None,
      args_temperature = Finite 0.7, args_max_tokens = 1024, args_stream = False,
      args_compare = Some ''gemini-pro, llama3'', args_json = False,
      args_list_ollama = False\<rparr>"

definition demo_call :: call where
  "demo_call =
     \<lparr>call_model = ''gpt-4o'', call_prompt = ''Hello'', call_system = None,
      call_temperature = None, call_max_tokens = None,
      call_extra = [(''response_format'', VDict [(''type'', VStr ''json_object'')])]\<rparr>"

definition demo_ops :: "(sdk \<times> op) list" where
  "demo_ops =
     [(demo_sdk, Chat (demo_call\<lparr>call_model := ''claude-sonnet-4''\<rparr>)),
      (demo_key_sdk, Acquire_gemini),
      (demo_sdk, Stream (demo_call\<lparr>call_extra := []\<rparr>)),
      (demo_sdk, Acquire_openai)]"

section \<open>Facts about the string operations\<close>

lemma startswith_iff_append: "startswith s p \<longleftrightarrow> (\<exists>b. s = p @ b)"
  by (induction s p rule: startswith.induct) auto

lemma str_in_iff_append: "str_in p s \<longleftrightarrow> (\<exists>a c. s = a @ p @ c)"
proof (induction s)
  case Nil
  then show ?case by auto
next
  case (Cons x s)
  have "(\<exists>a c. x # s = a @ p @ c) \<longleftrightarrow> (\<exists>c. x # s = p @ c) \<or> (\<exists>a c. s = a @ p @ c)"
    by (auto simp: Cons_eq_append_conv)
  with Cons show ?case
    by (simp add: startswith_iff_append)
qed

lemma lower_char_idem: "lower_char (lower_char c) = lower_char c"
  by (auto simp: lower_char_def is_upper_def)

lemma same_letter_lower:
  "\<not> is_upper d \<Longrightarrow> same_letter c d \<longleftrightarrow> lower_char c = d"
  by (auto simp: same_letter_def lower_char_def)

lemma ci_match_lower:
  "\<forall>d \<in> set p. \<not> is_upper d \<Longrightarrow> ci_match s p \<longleftrightarrow> lower s = p"
  unfolding ci_match_def lower_def
proof (induction s arbitrary: p)
  case Nil
  then show ?case by auto
next
  case (Cons c s)
  then show ?case
    by (cases p) (auto simp: same_letter_lower)
qed

lemma begins_with_ci_lower:
  assumes "\<forall>d \<in> set p. \<not> is_upper d"
  shows "begins_with_ci s p \<longleftrightarrow> startswith (lower s) p"
proof -
  have "startswith (lower s) p \<longleftrightarrow> (\<exists>a b. s = a @ b \<and> lower a = p)"
    unfolding startswith_iff_append lower_def
    by (auto simp: map_eq_append_conv)
  then show ?thesis
    by (simp add: begins_with_ci_def ci_match_lower [OF assms])
qed

lemma contains_ci_lower:
  assumes "\<forall>d \<in> set p. \<not> is_upper d"
  shows "contains_ci s p \<longleftrightarrow> str_in p (lower s)"
proof -
  have "str_in p (lower s) \<longleftrightarrow> (\<exists>a b c. s = a @ b @ c \<and> lower b = p)"
    unfolding str_in_iff_append lower_def
    by (auto simp: map_eq_append_conv append_eq_map_conv) blast
  then show ?thesis
    by (simp add: contains_ci_def ci_match_lower [OF assms])
qed

lemma pattern_lower_case:
  "\<forall>d \<in> set ''ollama/''. \<not> is_upper d"
  "\<forall>d \<in> set ''gpt''. \<not> is_upper d"
  "\<forall>d \<in> set ''o1''. \<not> is_upper d"
  "\<forall>d \<in> set ''ft:''. \<not> is_upper d"
  "\<forall>d \<in> set ''claude''. \<not> is_upper d"
  "\<forall>d \<in> set ''gemini''. \<not> is_upper d"
  by (simp_all add: is_upper_def)

section \<open>Facts about \<open>replace\<close>\<close>












section \<open>Facts about the adapters\<close>





text \<open>
  The loops of the Ollama, OpenAI and Gemini streams yield the non-empty texts of
  the chunks, in order (for OpenAI as long as every chunk has a choice); the
  Anthropic loop yields every item of the SDK's text stream.
\<close>

lemma stream_ollama_fragments:
  "for_yield ollama_chunk_body (cs, fin) = (nonempty_texts (map ollama_chunk_content cs), fin)"
  by (induction cs)
    (auto simp: nonempty_texts_def ollama_chunk_body_def ollama_chunk_content_def
      split: option.splits)

lemma stream_gemini_fragments:
  "for_yield gemini_chunk_body (cs, fin) = (nonempty_texts cs, fin)"
  by (induction cs)
    (auto simp: nonempty_texts_def gemini_chunk_body_def split: option.splits)

lemma stream_openai_fragments:
  "[] \<notin> set cs \<Longrightarrow>
     for_yield openai_chunk_body (cs, fin) = (nonempty_texts (map openai_chunk_content cs), fin)"
  by (induction cs)
    (auto simp: nonempty_texts_def openai_chunk_body_def openai_chunk_content_def
      split: option.splits list.splits)

lemma stream_anthropic_fragments:
  "for_yield anthropic_text_body (ts, fin) = (ts, fin)"
  by (induction ts) (auto simp: anthropic_text_body_def)

lemma get_provider_claude: "get_provider ''claude-sonnet-4'' = ''anthropic''"
  by (simp add: get_provider_def lower_def lower_char_def is_upper_def)

lemma get_provider_gpt: "get_provider ''gpt-4o'' = ''openai''"
  by (simp add: get_provider_def lower_def lower_char_def is_upper_def)

lemma get_provider_gemini: "get_provider ''gemini-pro'' = ''gemini''"
  by (simp add: get_provider_def lower_def lower_char_def is_upper_def)

lemma get_provider_llama: "get_provider ''llama3'' = ''ollama''"
  by (simp add: get_provider_def lower_def lower_char_def is_upper_def)

section \<open>Facts about the comparison loop\<close>

lemma compare_models_Cons_fst:
  "fst (compare_models B a p c (m # ms)) =
     header m @ outcome (fst (chat B c m p (args_system a) (args_temperature a) (args_max_tokens a) Map.empty))
       @ fst (compare_models B a p
                (snd (chat B c m p (args_system a) (args_temperature a) (args_max_tokens a) Map.empty)) ms)"
  by (simp split: prod.splits)

lemma compare_models_Cons_snd:
  "snd (compare_models B a p c (m # ms)) =
     snd (compare_models B a p
            (snd (chat B c m p (args_system a) (args_temperature a) (args_max_tokens a) Map.empty)) ms)"
  by (simp split: prod.splits)

lemma compare_models_blocks:
  "fst (compare_models B a p c ms) =
     concat (map (\<lambda>i. header (ms ! i) @
                    outcome (fst (chat B (snd (compare_models B a p c (take i ms))) (ms ! i) p
                                   (args_system a) (args_temperature a) (args_max_tokens a) Map.empty)))
               [0..<length ms])"
proof (induction ms arbitrary: c)
  case Nil
  show ?case by simp
next
  case (Cons m ms)
  have upt: "[0..<length (m # ms)] = 0 # map Suc [0..<length ms]"
    by (simp add: upt_conv_Cons map_Suc_upt del: upt_Suc)
  show ?case
    unfolding upt compare_models_Cons_fst Cons.IH
    by (simp add: compare_models_Cons_snd o_def del: compare_models.simps(2))
qed

section \<open>Facts about the registry and the runs\<close>

lemma keeps_refl: "keeps s s"
  by (simp add: keeps_def)

lemma keeps_trans: "keeps s s' \<Longrightarrow> keeps s' s'' \<Longrightarrow> keeps s s''"
  by (simp add: keeps_def)

lemma keeps_get_openai: "keeps s (snd (get_openai B s))"
  by (auto simp: keeps_def get_openai_def Let_def cached_def split: option.splits)

lemma keeps_get_anthropic: "keeps s (snd (get_anthropic B s))"
  by (auto simp: keeps_def get_anthropic_def Let_def cached_def split: option.splits)

lemma keeps_get_gemini: "keeps s (snd (get_gemini B s))"
  by (auto simp: keeps_def get_gemini_def Let_def cached_def split: option.splits)

lemma snd_chat_openai: "snd (chat_openai B s m p sy t n kw) = snd (get_openai B s)"
  by (simp add: chat_openai_def split: prod.splits sum.splits)

lemma snd_chat_anthropic: "snd (chat_anthropic B s m p sy t n) = snd (get_anthropic B s)"
  by (simp add: chat_anthropic_def split: prod.splits sum.splits)

lemma snd_chat_gemini: "snd (chat_gemini B s m p sy t n) = snd (get_gemini B s)"
  by (simp add: chat_gemini_def split: prod.splits sum.splits)

lemma snd_stream_openai: "snd (stream_openai B s m p sy t n) = snd (get_openai B s)"
  by (simp add: stream_openai_def split: prod.splits sum.splits)

lemma snd_stream_anthropic: "snd (stream_anthropic B s m p sy t n) = snd (get_anthropic B s)"
  by (simp add: stream_anthropic_def split: prod.splits sum.splits)

lemma snd_stream_gemini: "snd (stream_gemini B s m p sy t n) = snd (get_gemini B s)"
  by (simp add: stream_gemini_def split: prod.splits sum.splits)

lemma keeps_chat: "keeps s (snd (chat B s m p sy t n kw))"
  by (simp add: chat_def Let_def snd_chat_openai snd_chat_anthropic snd_chat_gemini
      keeps_refl keeps_get_openai keeps_get_anthropic keeps_get_gemini)

lemma keeps_stream: "keeps s (snd (stream B s m p sy t n))"
  by (simp add: stream_def Let_def snd_stream_openai snd_stream_anthropic snd_stream_gemini
      keeps_refl keeps_get_openai keeps_get_anthropic keeps_get_gemini)

lemma keeps_step: "keeps s (step x s)"
proof (cases x)
  case (Pair B o')
  show ?thesis
    unfolding Pair
    by (cases o')
      (simp_all add: keeps_get_openai keeps_get_anthropic keeps_get_gemini call_chat_def
        call_stream_def keeps_chat keeps_stream keeps_refl split: list.splits)
qed

lemma keeps_run: "keeps s (run ops s)"
  unfolding run_def
proof (induction ops arbitrary: s)
  case Nil
  show ?case by (simp add: keeps_refl)
next
  case (Cons x ops)
  show ?case using keeps_trans [OF keeps_step Cons.IH] by simp
qed

lemma get_openai_cached: "openai_client s = Some h \<Longrightarrow> get_openai B s = (Inr h, s)"
  by (simp add: get_openai_def)

lemma get_anthropic_cached: "anthropic_client s = Some h \<Longrightarrow> get_anthropic B s = (Inr h, s)"
  by (simp add: get_anthropic_def)

lemma get_gemini_cached: "gemini_client s = Some h \<Longrightarrow> get_gemini B s = (Inr h, s)"
  by (simp add: get_gemini_def)

lemma get_openai_caches: "get_openai B s = (Inr h, s') \<Longrightarrow> openai_client s' = Some h"
  by (auto simp: get_openai_def Let_def split: option.splits)

lemma get_anthropic_caches: "get_anthropic B s = (Inr h, s') \<Longrightarrow> anthropic_client s' = Some h"
  by (auto simp: get_anthropic_def Let_def split: option.splits)

lemma get_gemini_caches: "get_gemini B s = (Inr h, s') \<Longrightarrow> gemini_client s' = Some h"
  by (auto simp: get_gemini_def Let_def split: option.splits if_splits)

lemma get_gemini_first_use:
  assumes "gemini_client s = None"
  shows "if gemini_key_absent B
     then get_gemini B s =
            (Inl (ValueError ''GEMINI_API_KEY or GOOGLE_API_KEY environment variable required''), s)
     else \<exists>k. k \<noteq> []
            \<and> (environ B ''GEMINI_API_KEY'' = Some k \<or> environ B ''GOOGLE_API_KEY'' = Some k)
            \<and> get_gemini B s =
                (case genai_init B k of
                   Some e \<Rightarrow> (Inl e, s)
                 | None \<Rightarrow>
                     (Inr (Client (constructed s) (Some k)),
                      s\<lparr>gemini_client := Some (Client (constructed s) (Some k)),
                        constructed := Suc (constructed s)\<rparr>))"
  using assms
  by (auto simp: gemini_key_absent_def get_gemini_def str_or_def Let_def split: option.splits)

lemma get_openai_fails_iff:
  "fst (get_openai B s) = Inl e \<longleftrightarrow> openai_client s = None \<and> openai_init B = Some e"
  by (auto simp: get_openai_def Let_def split: option.splits)

lemma get_anthropic_fails_iff:
  "fst (get_anthropic B s) = Inl e \<longleftrightarrow> anthropic_client s = None \<and> anthropic_init B = Some e"
  by (auto simp: get_anthropic_def Let_def split: option.splits)

lemma get_openai_environ: "get_openai (B\<lparr>environ := env\<rparr>) s = get_openai B s"
  by (simp add: get_openai_def split: option.splits)

lemma get_anthropic_environ: "get_anthropic (B\<lparr>environ := env\<rparr>) s = get_anthropic B s"
  by (simp add: get_anthropic_def split: option.splits)

section \<open>Facts about the model listing\<close>



section \<open>Theorems\<close>

text \<open>
  C1. Provider identification is total and follows the priority rules of the
  specification, matched case-insensitively: an identifier beginning with
  \<open>ollama/\<close> is Ollama; otherwise one containing \<open>gpt\<close> or \<open>o1\<close>, or
  beginning with \<open>ft:\<close>, is OpenAI; otherwise one containing \<open>claude\<close> is
  Anthropic; otherwise one containing \<open>gemini\<close> is Gemini; every other string is
  Ollama. The result is always one of the four provider tags.
\<close>

theorem get_provider_refines_spec:
  "get_provider m = provider_tag (identify_provider_spec m)"
  by (simp add: get_provider_def identify_provider_spec_def Let_def
      begins_with_ci_lower contains_ci_lower pattern_lower_case)



text \<open>
  C3. Every streaming adapter should emit exactly the non-empty texts, in arrival
  order, and never an empty string. The Ollama, OpenAI and Gemini loops test the
  text before yielding it (\<open>stream_ollama_fragments\<close>,
  \<open>stream_openai_fragments\<close>, \<open>stream_gemini_fragments\<close>); the Anthropic loop
  yields every item of the SDK's text stream untested. When that stream starts
  with an empty text, the adapter emits the empty string.
\<close>

theorem stream_anthropic_emits_empty_fragment:
  "anthropic_text_stream demo_sdk (Client 0 None)
       (anthropic_stream_kwargs ''claude-sonnet-4'' ''Hello'' None (Finite 0.7) 1024) =
     ([[], ''Hello''], None)
   \<and> fst (stream demo_sdk init_client ''claude-sonnet-4'' ''Hello'' None (Finite 0.7) 1024) =
     ([[], ''Hello''], None)"
  by (simp add: stream_def get_provider_claude stream_anthropic_def get_anthropic_def
      init_client_def demo_sdk_def anthropic_text_body_def Let_def)

text \<open>
  C4, as stated, fails: an OpenAI completion whose first choice has no content
  makes \<open>chat\<close> return \<open>None\<close>, not an error.
\<close>

theorem chat_returns_null_for_missing_text:
  "openai_create demo_sdk (Client 0 None)
       (openai_chat_kwargs ''gpt-4o'' ''Hello'' None (Finite 0.7) 1024 no_kwargs) = Inr [None]
   \<and> chat demo_sdk init_client ''gpt-4o'' ''Hello'' None (Finite 0.7) 1024 no_kwargs =
       (Inr None, init_client\<lparr>openai_client := Some (Client 0 None), constructed := 1\<rparr>)"
  by (simp add: chat_def get_provider_gpt chat_openai_def get_openai_def
      init_client_def demo_sdk_def openai_text_def Let_def no_kwargs_def)

text \<open>
  C4, amended. The blocking extraction does no validation of its own. Where the
  text field cannot be reached, the operation fails with the error of the failing
  access: an Ollama reply without \<open>message\<close> or without \<open>content\<close> raises
  \<open>KeyError\<close>; an Anthropic message without content blocks raises
  \<open>IndexError\<close>, one whose first block is not a text block raises
  \<open>AttributeError\<close>; an OpenAI completion without choices raises
  \<open>IndexError\<close>. Where the field is there but null (the content of the first
  OpenAI choice, the text of a Gemini reply), that null value is returned without
  error. No adapter substitutes an empty or placeholder string.
\<close>

theorem extract_text_without_validation:
  "(ollama_text r = Inr v \<longleftrightarrow> (\<exists>m c. r ''message'' = Some m \<and> m ''content'' = Some c \<and> v = Some c))
   \<and> (ollama_text r = Inl e \<longleftrightarrow>
        (r ''message'' = None \<and> e = KeyError ''message'')
        \<or> (\<exists>m. r ''message'' = Some m \<and> m ''content'' = None \<and> e = KeyError ''content''))
   \<and> (anthropic_text a = Inr v \<longleftrightarrow> (\<exists>t bs. a = TextBlock t # bs \<and> v = Some t))
   \<and> (anthropic_text a = Inl e \<longleftrightarrow>
        (a = [] \<and> e = IndexError) \<or> (\<exists>bs. a = OtherBlock # bs \<and> e = AttributeError ''text''))
   \<and> (openai_text cs = Inl e \<longleftrightarrow> cs = [] \<and> e = IndexError)
   \<and> openai_text (c # cs') = Inr c
   \<and> gemini_text g = Inr g"
  by (auto simp: ollama_text_def subscript_def anthropic_text_def openai_text_def gemini_text_def
      split: option.splits list.splits content_block.splits)

text \<open>
  C5. The comparison splits the \<open>--compare\<close> argument into the model list and
  handles the models in that order. Its output is the concatenation, over the
  positions of the list, of one block per model: the header naming the model,
  then the outcome of the one \<open>chat\<close> call made for it (the response, or the
  exception caught) with the client as the earlier models left it. A failing call
  only changes the outcome line of its own block; the loop goes on to the end and
  \<open>main\<close> returns normally.
\<close>

theorem compare_reports_every_model_in_order:
  assumes "args_prompt a = Some p" and "p \<noteq> []"
  shows "main_compare B a cmp c =
     (concat (map (\<lambda>i. header (map strip (split_comma cmp) ! i) @
                     outcome (fst (chat B
                        (snd (compare_models B a p c (take i (map strip (split_comma cmp)))))
                        (map strip (split_comma cmp) ! i) p
                        (args_system a) (args_temperature a) (args_max_tokens a) Map.empty)))
                [0..<length (map strip (split_comma cmp))]),
      Return)"
  using assms compare_models_blocks [of B a p c "map strip (split_comma cmp)"]
  by (simp add: main_compare_def Let_def del: compare_models.simps)

text \<open>
  A run with two models of which the first fails (no Gemini key): its error is
  reported and the second model is still queried.
\<close>

theorem compare_reports_every_model_in_order_witness:
  "args_prompt demo_args = Some ''What is ML?'' \<and> ''What is ML?'' \<noteq> [] \<and>
   main_compare demo_sdk demo_args ''gemini-pro, llama3'' init_client =
     (header ''gemini-pro''
        @ [Stderr ''Error: GEMINI_API_KEY or GOOGLE_API_KEY environment variable required'']
        @ header ''llama3'' @ [Stdout ''pong''],
      Return)"
proof -
  have a: "args_prompt demo_args = Some ''What is ML?''" by (simp add: demo_args_def)
  have b: "''What is ML?'' \<noteq> []" by simp
  have g: "chat demo_sdk init_client ''gemini-pro'' ''What is ML?'' (args_system demo_args)
             (args_temperature demo_args) (args_max_tokens demo_args) Map.empty =
           (Inl (ValueError ''GEMINI_API_KEY or GOOGLE_API_KEY environment variable required''), init_client)"
    by (simp add: chat_def get_provider_gemini chat_gemini_def get_gemini_def init_client_def
        demo_sdk_def str_or_def)
  have l: "chat demo_sdk init_client ''llama3'' ''What is ML?'' (args_system demo_args)
             (args_temperature demo_args) (args_max_tokens demo_args) Map.empty =
           (Inr (Some ''pong''), init_client)"
    by (simp add: chat_def get_provider_llama chat_ollama_def demo_sdk_def ollama_text_def subscript_def)
  have u: "[0..<2] = [0, Suc 0]" by (simp add: upt_conv_Cons)
  show ?thesis
    using compare_reports_every_model_in_order [OF a b, of demo_sdk "''gemini-pro, llama3''" init_client]
    by (simp add: a strip_def is_space_def u g l outcome_def)
qed

text \<open>
  C6. Once an acquisition for a provider has returned a handle, every later
  acquisition for that provider in the same process, after any run of
  acquisitions, chats and streams and whatever the collaborators do, returns that
  same handle (the same object identity) and leaves the client as it is: nothing
  is constructed again. In every run from a fresh client the number of clients
  constructed equals the number of handles cached, one per provider at most.
\<close>

theorem handle_constructed_once_and_reused:
  "(get_openai B1 s1 = (Inr h1, s1') \<longrightarrow>
      get_openai B' (run ops s1') = (Inr h1, run ops s1'))
   \<and> (get_anthropic B2 s2 = (Inr h2, s2') \<longrightarrow>
      get_anthropic B' (run ops s2') = (Inr h2, run ops s2'))
   \<and> (get_gemini B3 s3 = (Inr h3, s3') \<longrightarrow>
      get_gemini B' (run ops s3') = (Inr h3, run ops s3'))
   \<and> constructed (run ops init_client) = length (cached (run ops init_client))"
proof (intro conjI impI)
  assume "get_openai B1 s1 = (Inr h1, s1')"
  then have "openai_client (run ops s1') = Some h1"
    using keeps_run [of s1' ops] by (simp add: keeps_def get_openai_caches)
  then show "get_openai B' (run ops s1') = (Inr h1, run ops s1')"
    by (rule get_openai_cached)
next
  assume "get_anthropic B2 s2 = (Inr h2, s2')"
  then have "anthropic_client (run ops s2') = Some h2"
    using keeps_run [of s2' ops] by (simp add: keeps_def get_anthropic_caches)
  then show "get_anthropic B' (run ops s2') = (Inr h2, run ops s2')"
    by (rule get_anthropic_cached)
next
  assume "get_gemini B3 s3 = (Inr h3, s3')"
  then have "gemini_client (run ops s3') = Some h3"
    using keeps_run [of s3' ops] by (simp add: keeps_def get_gemini_caches)
  then show "get_gemini B' (run ops s3') = (Inr h3, run ops s3')"
    by (rule get_gemini_cached)
next
  show "constructed (run ops init_client) = length (cached (run ops init_client))"
    using keeps_run [of init_client ops] by (simp add: keeps_def init_client_def cached_def)
qed

text \<open>
  A run that chats with Anthropic, acquires the Gemini handle, streams from OpenAI
  and acquires the OpenAI handle: each handle acquired before the run is returned
  again after it.
\<close>

theorem handle_constructed_once_and_reused_witness:
  "get_openai demo_sdk init_client = (Inr (Client 0 None), snd (get_openai demo_sdk init_client))
   \<and> get_openai demo_sdk (run demo_ops (snd (get_openai demo_sdk init_client))) =
       (Inr (Client 0 None), run demo_ops (snd (get_openai demo_sdk init_client)))
   \<and> get_anthropic demo_sdk init_client =
       (Inr (Client 0 None), snd (get_anthropic demo_sdk init_client))
   \<and> get_anthropic demo_sdk (run demo_ops (snd (get_anthropic demo_sdk init_client))) =
       (Inr (Client 0 None), run demo_ops (snd (get_anthropic demo_sdk init_client)))
   \<and> get_gemini demo_key_sdk init_client =
       (Inr (Client 0 (Some ''secret'')), snd (get_gemini demo_key_sdk init_client))
   \<and> get_gemini demo_sdk (run demo_ops (snd (get_gemini demo_key_sdk init_client))) =
       (Inr (Client 0 (Some ''secret'')), run demo_ops (snd (get_gemini demo_key_sdk init_client)))
   \<and> constructed (run demo_ops init_client) = 3"
proof -
  have o: "get_openai demo_sdk init_client =
             (Inr (Client 0 None), snd (get_openai demo_sdk init_client))"
    by (simp add: get_openai_def demo_sdk_def init_client_def Let_def)
  have a: "get_anthropic demo_sdk init_client =
             (Inr (Client 0 None), snd (get_anthropic demo_sdk init_client))"
    by (simp add: get_anthropic_def demo_sdk_def init_client_def Let_def)
  have g: "get_gemini demo_key_sdk init_client =
             (Inr (Client 0 (Some ''secret'')), snd (get_gemini demo_key_sdk init_client))"
    by (simp add: get_gemini_def demo_key_sdk_def demo_sdk_def init_client_def str_or_def Let_def)
  have r: "run demo_ops init_client =
             \<lparr>openai_client = Some (Client 2 None), anthropic_client = Some (Client 0 None),
              gemini_client = Some (Client 1 (Some ''secret'')), constructed = 3\<rparr>"
    by (simp add: run_def demo_ops_def demo_call_def call_chat_def call_stream_def
        chat_def stream_def get_provider_claude get_provider_gpt
        snd_chat_anthropic snd_stream_openai
        get_anthropic_def get_gemini_def get_openai_def
        demo_key_sdk_def demo_sdk_def init_client_def str_or_def Let_def)
  show ?thesis
    using handle_constructed_once_and_reused
      [of demo_sdk init_client "Client 0 None" "snd (get_openai demo_sdk init_client)"
          demo_sdk demo_ops
          demo_sdk init_client "Client 0 None" "snd (get_anthropic demo_sdk init_client)"
          demo_key_sdk init_client "Client 0 (Some ''secret'')"
          "snd (get_gemini demo_key_sdk init_client)"]
      o a g r
    by (simp add: cached_def)
qed

text \<open>
  C7. At first use of Gemini (no handle cached yet): if neither
  \<open>GEMINI_API_KEY\<close> nor \<open>GOOGLE_API_KEY\<close> holds a non-empty value, the
  acquisition raises the configuration error (a \<open>ValueError\<close> naming the two
  variables) and the client is unchanged, so nothing is cached; if one of them
  holds a key, the acquisition raises no error of its own: it constructs the SDK
  client with that key and fails only if that constructor does, again leaving the
  client unchanged. With a handle already cached the acquisition always succeeds.
  The OpenAI and Anthropic acquisitions fail exactly when their SDK constructor
  fails at first use, and never look at the environment themselves.
\<close>

theorem gemini_key_required_at_first_use:
  assumes "gemini_client s = None"
  shows "(if gemini_key_absent B
     then get_gemini B s =
            (Inl (ValueError ''GEMINI_API_KEY or GOOGLE_API_KEY environment variable required''), s)
     else \<exists>k. k \<noteq> []
            \<and> (environ B ''GEMINI_API_KEY'' = Some k \<or> environ B ''GOOGLE_API_KEY'' = Some k)
            \<and> get_gemini B s =
                (case genai_init B k of
                   Some e \<Rightarrow> (Inl e, s)
                 | None \<Rightarrow>
                     (Inr (Client (constructed s) (Some k)),
                      s\<lparr>gemini_client := Some (Client (constructed s) (Some k)),
                        constructed := Suc (constructed s)\<rparr>)))
   \<and> (gemini_client s' = Some h \<longrightarrow> get_gemini B s' = (Inr h, s'))
   \<and> (fst (get_openai B s') = Inl e \<longleftrightarrow> openai_client s' = None \<and> openai_init B = Some e)
   \<and> (fst (get_anthropic B s') = Inl e \<longleftrightarrow> anthropic_client s' = None \<and> anthropic_init B = Some e)
   \<and> get_openai (B\<lparr>environ := env\<rparr>) s' = get_openai B s'
   \<and> get_anthropic (B\<lparr>environ := env\<rparr>) s' = get_anthropic B s'"
  using get_gemini_first_use [OF assms, of B]
  by (simp add: get_gemini_def get_openai_fails_iff get_anthropic_fails_iff
      get_openai_environ get_anthropic_environ)

theorem gemini_key_required_at_first_use_witness:
  "gemini_client init_client = None
   \<and> gemini_key_absent demo_sdk
   \<and> get_gemini demo_sdk init_client =
       (Inl (ValueError ''GEMINI_API_KEY or GOOGLE_API_KEY environment variable required''),
        init_client)
   \<and> gemini_client (snd (get_gemini demo_key_sdk init_client)) = Some (Client 0 (Some ''secret''))
   \<and> get_gemini demo_sdk (snd (get_gemini demo_key_sdk init_client)) =
       (Inr (Client 0 (Some ''secret'')), snd (get_gemini demo_key_sdk init_client))"
proof -
  have n: "gemini_client init_client = None" by (simp add: init_client_def)
  have a: "gemini_key_absent demo_sdk" by (simp add: gemini_key_absent_def demo_sdk_def)
  have k: "gemini_client (snd (get_gemini demo_key_sdk init_client)) = Some (Client 0 (Some ''secret''))"
    by (simp add: get_gemini_def demo_key_sdk_def demo_sdk_def init_client_def str_or_def Let_def)
  show ?thesis
    using gemini_key_required_at_first_use
      [OF n, of demo_sdk "snd (get_gemini demo_key_sdk init_client)" "Client 0 (Some ''secret'')"]
      n a k
    by simp
qed






end
